theory Spec2Isabelle
  imports Complex_Main
begin

section \<open>The camera-path generator and the page handler\<close>

text \<open>
  The repository has two source files. \<^verbatim>\<open>generate_camera_path.py\<close> drives the FBX SDK
  to build one curve with ten control points and to export it;
  \<^verbatim>\<open>portfolio_app/views.py\<close> holds one Django view. Both delegate to a library that
  is not part of the repository. The library is modelled by what the source can observe of
  it: which calls are made on it, in which order and with which arguments, and what each
  call hands back where the source reads the result.
\<close>

subsection \<open>Python floats\<close>

text \<open>
  The source computes two coordinates with Python floats: \<^verbatim>\<open>i / 9.0\<close>,
  \<^verbatim>\<open>math.sin\<close>, \<^verbatim>\<open>math.pi\<close>, \<^verbatim>\<open>*\<close> and \<^verbatim>\<open>+\<close>. The float type and
  these operations are a parameter of the model: \<open>'f\<close> is the type of floats and a
  \<open>py_float\<close> gives the operations. An int operand of a mixed operation is converted
  first (\<open>float_of_int\<close>), as Python does; the literal \<^verbatim>\<open>9.0\<close> is the float of 9.
\<close>

record 'f py_float =
  float_of_int :: "int \<Rightarrow> 'f"
  fdiv :: "'f \<Rightarrow> 'f \<Rightarrow> 'f"
  fmul :: "'f \<Rightarrow> 'f \<Rightarrow> 'f"
  fadd :: "'f \<Rightarrow> 'f \<Rightarrow> 'f"
  math_sin :: "'f \<Rightarrow> 'f"
  math_pi :: "'f"

text \<open>Exact real arithmetic, the reading of the operations that the comments of the
  source and the formulas of the specification have in mind.\<close>

definition exact_arith :: "real py_float" where
  "exact_arith = \<lparr>float_of_int = of_int, fdiv = (/), fmul = (*), fadd = (+),
     math_sin = sin, math_pi = pi\<rparr>"



subsection \<open>The loop body: one control point\<close>

text \<open>
  \<^verbatim>\<open>
  t = i / 9.0
  x = math.sin(t * math.pi * 2) * 5
  y = 2 + math.sin(t * math.pi) * 1
  z = -i * 10
  \<close>
  \<open>z\<close> is a Python int: no float operation takes part in it.
\<close>

definition path_t :: "'f py_float \<Rightarrow> int \<Rightarrow> 'f" where
  "path_t ar i = fdiv ar (float_of_int ar i) (float_of_int ar 9)"

definition path_x :: "'f py_float \<Rightarrow> int \<Rightarrow> 'f" where
  "path_x ar i =
     fmul ar (math_sin ar (fmul ar (fmul ar (path_t ar i) (math_pi ar)) (float_of_int ar 2)))
       (float_of_int ar 5)"

definition path_y :: "'f py_float \<Rightarrow> int \<Rightarrow> 'f" where
  "path_y ar i =
     fadd ar (float_of_int ar 2)
       (fmul ar (math_sin ar (fmul ar (path_t ar i) (math_pi ar))) (float_of_int ar 1))"

definition path_z :: "int \<Rightarrow> int" where
  "path_z i = - i * 10"

text \<open>The arguments of \<^verbatim>\<open>fbx.FbxVector4(x, y, z)\<close> as the source passes them.\<close>

datatype 'f fbx_vector4 = FbxVector4 (vx: 'f) (vy: 'f) (vz: int)

definition control_point :: "'f py_float \<Rightarrow> int \<Rightarrow> 'f fbx_vector4" where
  "control_point ar i = FbxVector4 (path_x ar i) (path_y ar i) (path_z i)"

subsection \<open>The SDK as the source sees it\<close>

text \<open>Names of the SDK that the source only passes along.\<close>

datatype fbx_name = IOSROOT | e3D

text \<open>The calls the source makes on the SDK, with their arguments.\<close>

datatype 'f sdk_call =
    FbxManager_Create
  | FbxIOSettings_Create fbx_name
  | SetIOSettings
  | FbxScene_Create string
  | FbxNurbsCurve_Create string
  | SetOrder int
  | SetDimension fbx_name
  | SetControlPointCount int
  | SetStep int
  | SetControlPointAt "'f fbx_vector4" int
  | GetRootNode
  | AddChild
  | FbxExporter_Create string
  | GetIOSettings
  | Initialize string int
  | Export
  | Exporter_Destroy
  | Manager_Destroy

text \<open>
  What the SDK hands back. A \<open>Create\<close> call (and \<^verbatim>\<open>GetRootNode\<close>) returns an object
  or \<^verbatim>\<open>None\<close>; an object is truthy, \<^verbatim>\<open>None\<close> is falsy. \<^verbatim>\<open>Initialize\<close> and
  \<^verbatim>\<open>Export\<close> return a status, of which only the truth value matters. Every other call
  on an object returns normally and its result is not read by the source.
\<close>

record fbx_sdk =
  manager_created :: bool
  ios_created :: bool
  scene_created :: bool
  curve_created :: bool
  root_node_returned :: bool
  exporter_created :: bool
  initialize_returns :: bool
  export_returns :: bool

datatype resource = Manager | IOSettings | Scene | Curve | Exporter

datatype py_error = AttributeError

text \<open>How a call of the function ends: it returns a value, or an exception leaves it.\<close>

datatype outcome = Returned bool | Raised py_error

text \<open>
  The effects of a run: the SDK calls made so far, the lines printed, and the SDK objects
  that were created and not destroyed since.
\<close>

record 'f state =
  calls :: "'f sdk_call list"
  stdout :: "string list"
  live :: "resource set"

definition initial :: "'f state" where
  "initial = \<lparr>calls = [], stdout = [], live = {}\<rparr>"

definition call :: "'f sdk_call \<Rightarrow> 'f state \<Rightarrow> 'f state" where
  "call c s = s\<lparr>calls := calls s @ [c]\<rparr>"

definition print :: "string \<Rightarrow> 'f state \<Rightarrow> 'f state" where
  "print m s = s\<lparr>stdout := stdout s @ [m]\<rparr>"

text \<open>A \<open>Create\<close> call that returned an object leaves one more live object.\<close>

definition acquire :: "bool \<Rightarrow> resource \<Rightarrow> 'f state \<Rightarrow> 'f state" where
  "acquire created r s = (if created then s\<lparr>live := insert r (live s)\<rparr> else s)"

text \<open>\<^verbatim>\<open>exporter.Destroy()\<close> destroys the exporter; \<^verbatim>\<open>sdk_manager.Destroy()\<close>
  destroys the manager and every object created through it.\<close>

definition destroy_exporter :: "'f state \<Rightarrow> 'f state" where
  "destroy_exporter s = (call Exporter_Destroy s)\<lparr>live := live s - {Exporter}\<rparr>"

definition destroy_manager :: "'f state \<Rightarrow> 'f state" where
  "destroy_manager s = (call Manager_Destroy s)\<lparr>live := {}\<rparr>"

subsection \<open>The generator\<close>

text \<open>\<^verbatim>\<open>range(n)\<close>: the ints from 0 up to \<open>n - 1\<close>.\<close>

definition py_range :: "nat \<Rightarrow> int list" where
  "py_range n = map int [0..<n]"

text \<open>
  \<^verbatim>\<open>
  for i in range(10):
      ...
      path.SetControlPointAt(fbx.FbxVector4(x, y, z), i)
  \<close>
\<close>

primrec set_control_points :: "'f py_float \<Rightarrow> int list \<Rightarrow> 'f state \<Rightarrow> 'f state" where
  "set_control_points ar [] s = s"
| "set_control_points ar (i # is) s =
     set_control_points ar is (call (SetControlPointAt (control_point ar i) i) s)"

text \<open>
  \<open>create_camera_path_fbx\<close>, statement by statement. A method call on \<^verbatim>\<open>None\<close>
  raises \<^verbatim>\<open>AttributeError\<close>; the source tests only the manager and the status of
  \<^verbatim>\<open>Initialize\<close>. In \<^verbatim>\<open>exporter.Initialize(output_file, -1, sdk_manager.GetIOSettings())\<close>
  the attribute \<^verbatim>\<open>exporter.Initialize\<close> is looked up before the arguments are
  evaluated. The result of \<^verbatim>\<open>exporter.Export(scene)\<close> is dropped.
\<close>

definition create_camera_path_fbx ::
  "'f py_float \<Rightarrow> fbx_sdk \<Rightarrow> string \<Rightarrow> outcome \<times> 'f state" where
  "create_camera_path_fbx ar sdk output_file =
    (let s1 = acquire (manager_created sdk) Manager (call FbxManager_Create initial) in
     if \<not> manager_created sdk
     then (Returned False, print ''Error: Unable to create FBX Manager!'' s1)
     else
     let s2 = acquire (ios_created sdk) IOSettings (call (FbxIOSettings_Create IOSROOT) s1);
         s3 = call SetIOSettings s2;
         s4 = acquire (scene_created sdk) Scene (call (FbxScene_Create ''Camera Path Scene'') s3);
         s5 = acquire (curve_created sdk) Curve (call (FbxNurbsCurve_Create ''CameraPath'') s4)
     in
     if \<not> curve_created sdk then (Raised AttributeError, s5)
     else
     let s6 = call (SetOrder 3) s5;
         s7 = call (SetDimension e3D) s6;
         s8 = call (SetControlPointCount 10) s7;
         s9 = call (SetStep 4) s8;
         s10 = set_control_points ar (py_range 10) s9
     in
     if \<not> scene_created sdk then (Raised AttributeError, s10)
     else
     let s11 = call GetRootNode s10 in
     if \<not> root_node_returned sdk then (Raised AttributeError, s11)
     else
     let s12 = call AddChild s11;
         s13 = acquire (exporter_created sdk) Exporter (call (FbxExporter_Create []) s12)
     in
     if \<not> exporter_created sdk then (Raised AttributeError, s13)
     else
     let s14 = call GetIOSettings s13;
         s15 = call (Initialize output_file (- 1)) s14;
         export_status = initialize_returns sdk
     in
     if \<not> export_status
     then (Returned False, print ''Error: Unable to initialize exporter!'' s15)
     else
     let s16 = call Export s15;
         s17 = destroy_exporter s16;
         s18 = destroy_manager s17
     in (Returned True, print (''FBX file created successfully: '' @ output_file) s18))"

text \<open>The control points a run has set, in the order of the calls, each with its index.\<close>

fun control_points :: "'f sdk_call list \<Rightarrow> ('f fbx_vector4 \<times> int) list" where
  "control_points [] = []"
| "control_points (SetControlPointAt v i # cs) = (v, i) # control_points cs"
| "control_points (c # cs) = control_points cs"

text \<open>The calls that create and configure the curve entity.\<close>

fun on_curve :: "'f sdk_call \<Rightarrow> bool" where
  "on_curve (FbxNurbsCurve_Create n) = True"
| "on_curve (SetOrder n) = True"
| "on_curve (SetDimension d) = True"
| "on_curve (SetControlPointCount n) = True"
| "on_curve (SetStep n) = True"
| "on_curve (SetControlPointAt v i) = True"
| "on_curve c = False"

subsection \<open>The script\<close>

text \<open>
  How the execution of the module ends: \<^verbatim>\<open>sys.exit(n)\<close>, an exception that nothing
  catches, or the end of the file. The interpreter turns that into the exit status of the
  process: the argument of \<^verbatim>\<open>sys.exit\<close>, 1 for an uncaught exception, 0 otherwise.
\<close>

datatype ending = SysExit int | Uncaught py_error | Finished

fun exit_status :: "ending \<Rightarrow> int" where
  "exit_status (SysExit n) = n"
| "exit_status (Uncaught e) = 1"
| "exit_status Finished = 0"

definition default_output_file :: string where
  "default_output_file = ''static/models/camera_path.fbx''"

text \<open>
  The module body. \<open>fbx_importable\<close> says whether \<^verbatim>\<open>import fbx\<close> succeeds (otherwise
  it raises \<^verbatim>\<open>ImportError\<close>); \<open>name\<close> is the value of \<^verbatim>\<open>__name__\<close>. The value
  that \<open>create_camera_path_fbx\<close> returns is dropped by the last statement.
\<close>

definition generate_camera_path ::
  "'f py_float \<Rightarrow> bool \<Rightarrow> string \<Rightarrow> fbx_sdk \<Rightarrow> ending \<times> 'f state" where
  "generate_camera_path ar fbx_importable name sdk =
    (if \<not> fbx_importable
     then (SysExit 1,
       print ''You can download the FBX SDK from: https://www.autodesk.com/developer-network/platform-technologies/fbx-sdk-2020-0''
        (print ''FBX SDK Python bindings not found. Please install the FBX SDK or use a pre-made FBX file.''
          initial))
     else if name = ''__main__''
     then (case create_camera_path_fbx ar sdk default_output_file of
             (Returned b, s) \<Rightarrow> (Finished, s)
           | (Raised e, s) \<Rightarrow> (Uncaught e, s))
     else (Finished, initial))"

subsection \<open>The page handler\<close>




subsection \<open>Concrete SDK behaviours\<close>

text \<open>Every call succeeds.\<close>

definition sdk_ok :: fbx_sdk where
  "sdk_ok = \<lparr>manager_created = True, ios_created = True, scene_created = True,
     curve_created = True, root_node_returned = True, exporter_created = True,
     initialize_returns = True, export_returns = True\<rparr>"

text \<open>Every object is created, and \<^verbatim>\<open>exporter.Initialize\<close> returns a false status.\<close>

definition sdk_initialize_fails :: fbx_sdk where
  "sdk_initialize_fails = sdk_ok\<lparr>initialize_returns := False\<rparr>"

text \<open>\<^verbatim>\<open>fbx.FbxNurbsCurve.Create\<close> returns \<^verbatim>\<open>None\<close>.\<close>

definition sdk_no_curve :: fbx_sdk where
  "sdk_no_curve = sdk_ok\<lparr>curve_created := False\<rparr>"

text \<open>\<^verbatim>\<open>fbx.FbxScene.Create\<close> returns \<^verbatim>\<open>None\<close>, and no curve can be created in
  the missing scene.\<close>

definition sdk_no_scene :: fbx_sdk where
  "sdk_no_scene = sdk_ok\<lparr>scene_created := False, curve_created := False\<rparr>"

section \<open>Properties\<close>

subsection \<open>The loop\<close>

lemma calls_call: "calls (call c s) = calls s @ [c]"
  by (simp add: call_def)

lemma calls_set_control_points:
  "calls (set_control_points ar js s) =
     calls s @ map (\<lambda>i. SetControlPointAt (control_point ar i) i) js"
  by (induction js arbitrary: s) (simp_all add: calls_call)

lemma stdout_set_control_points: "stdout (set_control_points ar js s) = stdout s"
  by (induction js arbitrary: s) (simp_all add: call_def)

lemma live_set_control_points: "live (set_control_points ar js s) = live s"
  by (induction js arbitrary: s) (simp_all add: call_def)

lemma control_points_append:
  "control_points (cs @ ds) = control_points cs @ control_points ds"
  by (induction cs rule: control_points.induct) simp_all

lemma control_points_map:
  "control_points (map (\<lambda>i. SetControlPointAt (f i) i) js) = map (\<lambda>i. (f i, i)) js"
  by (induction js) simp_all

lemma py_range_10: "py_range 10 = [0, 1, 2, 3, 4, 5, 6, 7, 8, 9]"
  by (simp add: py_range_def upt_rec)

lemma py_range_nth: "i < n \<Longrightarrow> py_range n ! i = int i"
  by (simp add: py_range_def)

lemma length_py_range: "length (py_range n) = n"
  by (simp add: py_range_def)

subsection \<open>What each statement does to the three parts of the state\<close>

lemma calls_acquire: "calls (acquire b r s) = calls s"
  by (simp add: acquire_def)

lemma calls_print: "calls (print m s) = calls s"
  by (simp add: print_def)

lemma calls_destroy_exporter: "calls (destroy_exporter s) = calls s @ [Exporter_Destroy]"
  by (simp add: destroy_exporter_def call_def)

lemma calls_destroy_manager: "calls (destroy_manager s) = calls s @ [Manager_Destroy]"
  by (simp add: destroy_manager_def call_def)

lemmas calls_simps = calls_call calls_acquire calls_print calls_destroy_exporter
  calls_destroy_manager calls_set_control_points

lemma stdout_call: "stdout (call c s) = stdout s"
  by (simp add: call_def)

lemma stdout_acquire: "stdout (acquire b r s) = stdout s"
  by (simp add: acquire_def)

lemma stdout_print: "stdout (print m s) = stdout s @ [m]"
  by (simp add: print_def)

lemma stdout_destroy_exporter: "stdout (destroy_exporter s) = stdout s"
  by (simp add: destroy_exporter_def call_def)

lemma stdout_destroy_manager: "stdout (destroy_manager s) = stdout s"
  by (simp add: destroy_manager_def call_def)

lemmas stdout_simps = stdout_call stdout_acquire stdout_print stdout_destroy_exporter
  stdout_destroy_manager stdout_set_control_points

lemma live_call: "live (call c s) = live s"
  by (simp add: call_def)

lemma live_acquire: "live (acquire b r s) = (if b then insert r (live s) else live s)"
  by (simp add: acquire_def)

lemma live_print: "live (print m s) = live s"
  by (simp add: print_def)

lemma live_destroy_exporter: "live (destroy_exporter s) = live s - {Exporter}"
  by (simp add: destroy_exporter_def)

lemma live_destroy_manager: "live (destroy_manager s) = {}"
  by (simp add: destroy_manager_def)

lemmas live_simps = live_call live_acquire live_print live_destroy_exporter
  live_destroy_manager live_set_control_points

subsection \<open>The exits of \<open>create_camera_path_fbx\<close>\<close>

text \<open>
  The function has six exits: two \<^verbatim>\<open>return False\<close>, one \<^verbatim>\<open>return True\<close>, and
  an \<^verbatim>\<open>AttributeError\<close> where a method is called on a curve, scene, root node or
  exporter that is \<^verbatim>\<open>None\<close>.
\<close>

lemma outcome_run:
  "fst (create_camera_path_fbx ar sdk output_file) =
    (if \<not> manager_created sdk then Returned False
     else if \<not> curve_created sdk \<or> \<not> scene_created sdk \<or> \<not> root_node_returned sdk
          \<or> \<not> exporter_created sdk then Raised AttributeError
     else Returned (initialize_returns sdk))"
  by (simp add: create_camera_path_fbx_def Let_def)

lemma stdout_run:
  "stdout (snd (create_camera_path_fbx ar sdk output_file)) =
    (if \<not> manager_created sdk then [''Error: Unable to create FBX Manager!'']
     else if \<not> curve_created sdk \<or> \<not> scene_created sdk \<or> \<not> root_node_returned sdk
          \<or> \<not> exporter_created sdk then []
     else if \<not> initialize_returns sdk then [''Error: Unable to initialize exporter!'']
     else [''FBX file created successfully: '' @ output_file])"
  by (simp add: create_camera_path_fbx_def Let_def stdout_simps initial_def)

lemma control_points_run:
  "control_points (calls (snd (create_camera_path_fbx ar sdk output_file))) =
     (if manager_created sdk \<and> curve_created sdk
      then map (\<lambda>i. (control_point ar i, i)) (py_range 10) else [])"
  by (simp add: create_camera_path_fbx_def Let_def calls_simps control_points_append
        control_points_map initial_def)

text \<open>\<^verbatim>\<open>exporter.Initialize\<close> is called exactly when every earlier statement went
  through, and then with the output file and \<open>-1\<close>; \<^verbatim>\<open>exporter.Export\<close> is called
  exactly when, moreover, \<^verbatim>\<open>Initialize\<close> returned a true status.\<close>

lemma reaches_initialize:
  "Initialize f n \<in> set (calls (snd (create_camera_path_fbx ar sdk output_file))) \<longleftrightarrow>
     manager_created sdk \<and> curve_created sdk \<and> scene_created sdk \<and>
     root_node_returned sdk \<and> exporter_created sdk \<and> f = output_file \<and> n = - 1"
  by (auto simp add: create_camera_path_fbx_def Let_def calls_simps initial_def)

lemma export_called:
  "Export \<in> set (calls (snd (create_camera_path_fbx ar sdk output_file))) \<longleftrightarrow>
     manager_created sdk \<and> curve_created sdk \<and> scene_created sdk \<and>
     root_node_returned sdk \<and> exporter_created sdk \<and> initialize_returns sdk"
  by (auto simp add: create_camera_path_fbx_def Let_def calls_simps initial_def)

text \<open>Where the function destroys what it created: after a successful export. When no
  manager could be created there is nothing to destroy.\<close>

lemma live_run_success:
  "fst (create_camera_path_fbx ar sdk output_file) = Returned True \<Longrightarrow>
   live (snd (create_camera_path_fbx ar sdk output_file)) = {}"
  by (simp add: create_camera_path_fbx_def Let_def live_simps initial_def split: if_splits)

lemma live_run_no_manager:
  "\<not> manager_created sdk \<Longrightarrow>
   live (snd (create_camera_path_fbx ar sdk output_file)) = {}"
  by (simp add: create_camera_path_fbx_def Let_def live_simps initial_def)

text \<open>The script run directly ends as the function does.\<close>

lemma ending_script:
  "fst (generate_camera_path ar True ''__main__'' sdk) =
     (case fst (create_camera_path_fbx ar sdk default_output_file) of
        Returned b \<Rightarrow> Finished | Raised e \<Rightarrow> Uncaught e)"
  by (cases "create_camera_path_fbx ar sdk default_output_file")
     (simp add: generate_camera_path_def split: outcome.splits)

text \<open>In exact real arithmetic the two float expressions of the loop body are the
  formulas \<open>5 sin(2 \<pi> t)\<close> and \<open>2 + sin(\<pi> t)\<close> with \<open>t = i / 9\<close>.\<close>

lemma path_exact:
  "path_x exact_arith i = 5 * sin (2 * pi * (of_int i / 9))"
  "path_y exact_arith i = 2 + sin (pi * (of_int i / 9))"
  by (simp_all add: path_x_def path_y_def path_t_def exact_arith_def mult_ac)

subsection \<open>Rounding errors of the loop body\<close>









section \<open>The claims\<close>

subsection \<open>The control points\<close>

text \<open>
  C1. For every index \<open>i\<close> in 0..9, the control point that the generator sets at
  index \<open>i\<close> has the z-coordinate \<open>-10 i\<close>, exactly. The control points are read off
  the \<^verbatim>\<open>SetControlPointAt\<close> calls of a run that gets to the loop, that is, a run in
  which the manager and the curve were created; the \<open>i\<close>-th such call carries the index
  \<open>i\<close> and a vector whose third argument is the int \<open>-10 i\<close>.
\<close>

theorem z_linear:
  "manager_created sdk \<Longrightarrow> curve_created sdk \<Longrightarrow> i < 10 \<Longrightarrow>
   vz (fst (control_points (calls (snd (create_camera_path_fbx ar sdk output_file))) ! i))
     = - 10 * int i \<and>
   snd (control_points (calls (snd (create_camera_path_fbx ar sdk output_file))) ! i) = int i"
  by (simp add: control_points_run py_range_nth length_py_range control_point_def path_z_def)

theorem z_linear_witness:
  "manager_created sdk_ok \<and> curve_created sdk_ok \<and> (3::nat) < 10 \<and>
   vz (fst (control_points
     (calls (snd (create_camera_path_fbx exact_arith sdk_ok ''camera_path.fbx''))) ! 3)) = - 30 \<and>
   snd (control_points
     (calls (snd (create_camera_path_fbx exact_arith sdk_ok ''camera_path.fbx''))) ! 3) = 3"
  using z_linear [of sdk_ok 3 exact_arith "''camera_path.fbx''"]
  by (simp add: sdk_ok_def)



text \<open>
  C3. On the successful path (the function returns \<^verbatim>\<open>True\<close>) the calls that create and
  configure a curve are always the same: one curve is created, with order 3 (which the
  source calls cubic), dimension \<^verbatim>\<open>e3D\<close>, control point count 10 and step 4, and then
  exactly ten control points are set, at the indices 0, 1, ..., 9 in this order. Neither
  the output file nor anything the SDK returns changes any of these values.
\<close>

theorem curve_fixed:
  "fst (create_camera_path_fbx ar sdk output_file) = Returned True \<Longrightarrow>
   filter on_curve (calls (snd (create_camera_path_fbx ar sdk output_file))) =
     [FbxNurbsCurve_Create ''CameraPath'', SetOrder 3, SetDimension e3D,
      SetControlPointCount 10, SetStep 4] @
     map (\<lambda>i. SetControlPointAt (control_point ar i) i) [0, 1, 2, 3, 4, 5, 6, 7, 8, 9]"
  by (simp add: create_camera_path_fbx_def Let_def calls_simps initial_def py_range_10
      split: if_splits)

theorem curve_fixed_witness:
  "fst (create_camera_path_fbx exact_arith sdk_ok ''camera_path.fbx'') = Returned True \<and>
   filter on_curve
     (calls (snd (create_camera_path_fbx exact_arith sdk_ok ''camera_path.fbx''))) =
     [FbxNurbsCurve_Create ''CameraPath'', SetOrder 3, SetDimension e3D,
      SetControlPointCount 10, SetStep 4] @
     map (\<lambda>i. SetControlPointAt (control_point exact_arith i) i)
       [0, 1, 2, 3, 4, 5, 6, 7, 8, 9]"
proof -
  have ok: "fst (create_camera_path_fbx exact_arith sdk_ok ''camera_path.fbx'') = Returned True"
    by (simp add: outcome_run sdk_ok_def)
  show ?thesis using ok curve_fixed [OF ok] by simp
qed

text \<open>
  C10. The control points are a function of the index alone. Two runs that get to the
  loop set the same ten points, whatever their output files are and whatever the SDK
  returns in each, and the point at index \<open>i\<close> is \<open>control_point ar i\<close>, in which
  nothing but \<open>i\<close> and the float operations of the platform occurs. The float
  operations are functions, the same in both runs.
\<close>

theorem control_points_deterministic:
  "manager_created sdk \<Longrightarrow> curve_created sdk \<Longrightarrow>
   manager_created sdk' \<Longrightarrow> curve_created sdk' \<Longrightarrow>
   control_points (calls (snd (create_camera_path_fbx ar sdk output_file))) =
     control_points (calls (snd (create_camera_path_fbx ar sdk' output_file'))) \<and>
   control_points (calls (snd (create_camera_path_fbx ar sdk output_file))) =
     map (\<lambda>i. (control_point ar i, i)) [0, 1, 2, 3, 4, 5, 6, 7, 8, 9]"
  by (simp add: control_points_run py_range_10)

theorem control_points_deterministic_witness:
  "manager_created sdk_ok \<and> curve_created sdk_ok \<and>
   manager_created sdk_initialize_fails \<and> curve_created sdk_initialize_fails \<and>
   control_points (calls (snd (create_camera_path_fbx exact_arith sdk_ok ''a.fbx''))) =
     control_points
       (calls (snd (create_camera_path_fbx exact_arith sdk_initialize_fails ''b.fbx'')))"
  using control_points_deterministic
    [of sdk_ok sdk_initialize_fails exact_arith "''a.fbx''" "''b.fbx''"]
  by (simp add: sdk_ok_def sdk_initialize_fails_def)

subsection \<open>Failures and resources\<close>

text \<open>
  C4. The claim: on every exit path of \<open>create_camera_path_fbx\<close> the SDK objects
  acquired so far are released before the function returns. The function does so after a
  successful export (\<open>live_run_success\<close>), but its \<^verbatim>\<open>return False\<close> after a failed
  \<^verbatim>\<open>exporter.Initialize\<close> comes before the two \<^verbatim>\<open>Destroy\<close> calls: when every
  object was created and \<^verbatim>\<open>Initialize\<close> returns a false status, the function returns
  \<^verbatim>\<open>False\<close> with the manager, the IO settings, the scene, the curve and the exporter
  still alive and without having called \<^verbatim>\<open>Destroy\<close> on anything.
\<close>

theorem leak_on_initialize_failure:
  "fst (create_camera_path_fbx exact_arith sdk_initialize_fails ''camera_path.fbx'')
     = Returned False \<and>
   live (snd (create_camera_path_fbx exact_arith sdk_initialize_fails ''camera_path.fbx''))
     = {Manager, IOSettings, Scene, Curve, Exporter} \<and>
   Exporter_Destroy \<notin> set (calls
     (snd (create_camera_path_fbx exact_arith sdk_initialize_fails ''camera_path.fbx''))) \<and>
   Manager_Destroy \<notin> set (calls
     (snd (create_camera_path_fbx exact_arith sdk_initialize_fails ''camera_path.fbx'')))"
  by (auto simp add: create_camera_path_fbx_def Let_def calls_simps live_simps initial_def
      sdk_initialize_fails_def sdk_ok_def)

text \<open>
  C5, as amended. The manager creation is checked before the function proceeds: when
  \<^verbatim>\<open>fbx.FbxManager.Create()\<close> returns no object, the function prints
  \<^verbatim>\<open>Error: Unable to create FBX Manager!\<close> and returns \<^verbatim>\<open>False\<close>, having made no
  other SDK call.
\<close>

theorem manager_checked:
  "\<not> manager_created sdk \<Longrightarrow>
   create_camera_path_fbx ar sdk output_file =
     (Returned False,
      \<lparr>calls = [FbxManager_Create], stdout = [''Error: Unable to create FBX Manager!''],
       live = {}\<rparr>)"
  by (simp add: create_camera_path_fbx_def Let_def initial_def call_def print_def acquire_def)

theorem manager_checked_witness:
  "\<not> manager_created (sdk_ok\<lparr>manager_created := False\<rparr>) \<and>
   create_camera_path_fbx exact_arith (sdk_ok\<lparr>manager_created := False\<rparr>) ''camera_path.fbx'' =
     (Returned False,
      \<lparr>calls = [FbxManager_Create], stdout = [''Error: Unable to create FBX Manager!''],
       live = {}\<rparr>)"
  using manager_checked [of "sdk_ok\<lparr>manager_created := False\<rparr>" exact_arith "''camera_path.fbx''"]
  by (simp add: sdk_ok_def)

text \<open>
  C5, as stated, fails for the curve: the source calls \<^verbatim>\<open>path.SetOrder(3)\<close> on
  whatever \<^verbatim>\<open>fbx.FbxNurbsCurve.Create\<close> returned. When that is \<^verbatim>\<open>None\<close> the
  function does not return \<^verbatim>\<open>False\<close> and prints nothing: an \<^verbatim>\<open>AttributeError\<close>
  leaves it.
\<close>

theorem curve_unchecked_counterexample:
  "\<not> curve_created sdk_no_curve \<and>
   fst (create_camera_path_fbx exact_arith sdk_no_curve ''camera_path.fbx'') \<noteq> Returned False \<and>
   fst (create_camera_path_fbx exact_arith sdk_no_curve ''camera_path.fbx'')
     = Raised AttributeError \<and>
   stdout (snd (create_camera_path_fbx exact_arith sdk_no_curve ''camera_path.fbx'')) = []"
  by (simp add: outcome_run stdout_run sdk_no_curve_def sdk_ok_def)

text \<open>
  C6. When \<^verbatim>\<open>import fbx\<close> fails, the script prints its two explanatory lines and
  ends with \<^verbatim>\<open>sys.exit(1)\<close>, so the exit status of the process is 1, whatever
  \<^verbatim>\<open>__name__\<close> is. No SDK call is made; the script has no file operation of its own
  (files are written through the SDK's exporter only), so no output file is created.
\<close>

theorem import_guard:
  "exit_status (fst (generate_camera_path ar False name sdk)) = 1 \<and>
   stdout (snd (generate_camera_path ar False name sdk)) =
     [''FBX SDK Python bindings not found. Please install the FBX SDK or use a pre-made FBX file.'',
      ''You can download the FBX SDK from: https://www.autodesk.com/developer-network/platform-technologies/fbx-sdk-2020-0''] \<and>
   calls (snd (generate_camera_path ar False name sdk)) = []"
  by (simp add: generate_camera_path_def initial_def print_def)

text \<open>
  C7, as amended. If the manager cannot be created, or if \<^verbatim>\<open>exporter.Initialize\<close> is
  called and returns a false status, the function prints one error line and returns
  \<^verbatim>\<open>False\<close>; the script run directly drops that value and the process exits with
  status 0.
\<close>

theorem failure_reported_exit_zero:
  "\<not> manager_created sdk \<or>
   (Initialize output_file (- 1) \<in> set (calls (snd (create_camera_path_fbx ar sdk output_file)))
    \<and> \<not> initialize_returns sdk) \<Longrightarrow>
   fst (create_camera_path_fbx ar sdk output_file) = Returned False \<and>
   stdout (snd (create_camera_path_fbx ar sdk output_file)) =
     [if manager_created sdk then ''Error: Unable to initialize exporter!''
      else ''Error: Unable to create FBX Manager!''] \<and>
   exit_status (fst (generate_camera_path ar True ''__main__'' sdk)) = 0"
  by (auto simp add: ending_script reaches_initialize outcome_run stdout_run)

theorem failure_reported_exit_zero_witness:
  "Initialize default_output_file (- 1) \<in> set (calls
     (snd (create_camera_path_fbx exact_arith sdk_initialize_fails default_output_file))) \<and>
   \<not> initialize_returns sdk_initialize_fails \<and>
   fst (create_camera_path_fbx exact_arith sdk_initialize_fails default_output_file)
     = Returned False \<and>
   stdout (snd (create_camera_path_fbx exact_arith sdk_initialize_fails default_output_file))
     = [''Error: Unable to initialize exporter!''] \<and>
   exit_status (fst (generate_camera_path exact_arith True ''__main__'' sdk_initialize_fails)) = 0"
  using failure_reported_exit_zero [of sdk_initialize_fails default_output_file exact_arith]
  by (simp add: reaches_initialize sdk_initialize_fails_def sdk_ok_def)

text \<open>
  C7, as stated, also covers the creation of the scene. When
  \<^verbatim>\<open>fbx.FbxScene.Create\<close> returns \<^verbatim>\<open>None\<close> (and so no curve is created either), the
  function neither prints an error nor returns \<^verbatim>\<open>False\<close>: an \<^verbatim>\<open>AttributeError\<close>
  leaves it, nothing in the script catches it, and the process run directly exits with
  status 1.
\<close>

theorem scene_failure_counterexample:
  "\<not> scene_created sdk_no_scene \<and>
   fst (create_camera_path_fbx exact_arith sdk_no_scene default_output_file) \<noteq> Returned False \<and>
   stdout (snd (create_camera_path_fbx exact_arith sdk_no_scene default_output_file)) = [] \<and>
   exit_status (fst (generate_camera_path exact_arith True ''__main__'' sdk_no_scene)) = 1"
  by (simp add: ending_script outcome_run stdout_run sdk_no_scene_def sdk_ok_def)

text \<open>
  C8. Once \<^verbatim>\<open>exporter.Initialize\<close> was called and returned a true status, the function
  calls \<^verbatim>\<open>exporter.Export\<close>, prints the confirmation and returns \<^verbatim>\<open>True\<close>, whatever
  value \<open>b\<close> the export call returns.
\<close>

theorem export_status_unchecked:
  "Initialize output_file (- 1) \<in> set (calls (snd (create_camera_path_fbx ar sdk output_file)))
   \<Longrightarrow> initialize_returns sdk \<Longrightarrow>
   fst (create_camera_path_fbx ar (sdk\<lparr>export_returns := b\<rparr>) output_file) = Returned True \<and>
   stdout (snd (create_camera_path_fbx ar (sdk\<lparr>export_returns := b\<rparr>) output_file)) =
     [''FBX file created successfully: '' @ output_file] \<and>
   Export \<in> set (calls
     (snd (create_camera_path_fbx ar (sdk\<lparr>export_returns := b\<rparr>) output_file)))"
  by (simp add: reaches_initialize export_called outcome_run stdout_run)

theorem export_status_unchecked_witness:
  "Initialize ''camera_path.fbx'' (- 1) \<in> set (calls
     (snd (create_camera_path_fbx exact_arith sdk_ok ''camera_path.fbx''))) \<and>
   initialize_returns sdk_ok \<and>
   fst (create_camera_path_fbx exact_arith (sdk_ok\<lparr>export_returns := False\<rparr>)
     ''camera_path.fbx'') = Returned True \<and>
   stdout (snd (create_camera_path_fbx exact_arith (sdk_ok\<lparr>export_returns := False\<rparr>)
     ''camera_path.fbx'')) = [''FBX file created successfully: camera_path.fbx'']"
  using export_status_unchecked [of "''camera_path.fbx''" exact_arith sdk_ok False]
  by (simp add: reaches_initialize sdk_ok_def)

subsection \<open>The page handler\<close>




end
